theory Spec2Isabelle
  imports Main "HOL-Library.Sublist"
begin

section \<open>Data model\<close>

text \<open>
  The \<open>Contributor\<close> interface of \<open>src/components/Footer.tsx\<close>, which is also the shape
  of the objects that \<open>src/scripts/fetch-contributors.js\<close> builds and serialises.
\<close>

record contributor =
  username :: string
  profileUrl :: string

text \<open>
  A record of the provider's response. The script reads exactly three fields of it:
  \<open>type\<close>, \<open>login\<close> and \<open>html_url\<close>.
\<close>

record api_contributor =
  type :: string
  login :: string
  html_url :: string

section \<open>The fetch script (src/scripts/fetch-contributors.js)\<close>

definition REPO_OWNER :: string where
  "REPO_OWNER = ''keepdying''"

definition isUser :: "api_contributor \<Rightarrow> bool" where
  "isUser c = (type c = ''User'')"

definition toContributor :: "api_contributor \<Rightarrow> contributor" where
  "toContributor c = \<lparr>username = login c, profileUrl = html_url c\<rparr>"

definition owner_record :: contributor where
  "owner_record = \<lparr>username = REPO_OWNER, profileUrl = ''https://github.com/'' @ REPO_OWNER\<rparr>"

text \<open>
  Lines 25 to 39: \<open>filter\<close>, \<open>map\<close>, \<open>some\<close> and the conditional \<open>unshift\<close>. The
  result is the value of \<open>formattedContributors\<close> when it reaches \<open>JSON.stringify\<close>.
\<close>

definition formattedContributors :: "api_contributor list \<Rightarrow> contributor list" where
  "formattedContributors contributors =
     (let formatted = map toContributor (filter isUser contributors);
          ownerExists = list_ex (\<lambda>c. username c = REPO_OWNER) formatted
      in if \<not> ownerExists then owner_record # formatted else formatted)"

subsection \<open>The environment of one run\<close>

text \<open>
  What \<open>response.json()\<close> can do with the body: reject (the body is not JSON), resolve
  to a value that is not an array (then \<open>contributors.filter\<close> is not a function and the
  call raises a TypeError), or resolve to an array of records.
\<close>

datatype response_body =
    Unparsable
  | NotAnArray
  | Records "api_contributor list"

record response =
  status :: nat
  statusText :: string
  body :: response_body

text \<open>\<open>response.ok\<close> of the Fetch API: the status is in the range 200 to 299.\<close>

definition ok :: "response \<Rightarrow> bool" where
  "ok r = (200 \<le> status r \<and> status r \<le> 299)"

datatype fetch_result =
    FetchRejects string
  | FetchResolves response

text \<open>
  The artifact file \<open>public/contributors.json\<close>: absent, holding something that is not
  the JSON of a contributor list (a write that failed half way can leave that), or
  holding the JSON of a contributor list. Serialisation is not modelled: a file that
  holds \<open>JSON.stringify xs\<close> is \<open>Holds xs\<close>.
\<close>

datatype artifact_file =
    Missing
  | Corrupt
  | Holds "contributor list"

text \<open>
  What \<open>fs.writeFileSync\<close> does in this run: succeed, or throw with a message, leaving
  some content on disk.
\<close>

datatype write_result =
    WriteSucceeds
  | WriteThrows string artifact_file

record env =
  fetch_outcome :: fetch_result
  write_outcome :: write_result

datatype js_error =
    NetworkError string
  | GitHubApiError nat string
  | JsonSyntaxError
  | FilterNotAFunction
  | FilesystemError string

datatype effect =
    LogFetching
  | LogSuccessfullyFetched nat
  | LogWrittenTo
  | ErrorFetchingContributors js_error
  | LogKeepingExisting
  | WriteFileSync "contributor list"

record world =
  artifact :: artifact_file
  trace :: "effect list"

definition emit :: "effect \<Rightarrow> world \<Rightarrow> world" where
  "emit e w = w\<lparr>trace := trace w @ [e]\<rparr>"

text \<open>Lines 43 to 47: the call is recorded, then it succeeds or throws.\<close>

definition writeFileSync :: "env \<Rightarrow> contributor list \<Rightarrow> world \<Rightarrow> (js_error + unit) \<times> world" where
  "writeFileSync e content w =
     (let w1 = emit (WriteFileSync content) w in
      case write_outcome e of
        WriteSucceeds \<Rightarrow> (Inr (), w1\<lparr>artifact := Holds content\<rparr>)
      | WriteThrows msg left \<Rightarrow> (Inl (FilesystemError msg), w1\<lparr>artifact := left\<rparr>))"

text \<open>
  Lines 10 to 39, steps 1 to 6 of the script: the request, the status check, the parse
  and the formatting. They touch nothing but the console.
\<close>

definition fetch_and_format :: "env \<Rightarrow> js_error + contributor list" where
  "fetch_and_format e =
     (case fetch_outcome e of
        FetchRejects msg \<Rightarrow> Inl (NetworkError msg)
      | FetchResolves response \<Rightarrow>
          if \<not> ok response then Inl (GitHubApiError (status response) (statusText response))
          else (case body response of
                  Unparsable \<Rightarrow> Inl JsonSyntaxError
                | NotAnArray \<Rightarrow> Inl FilterNotAFunction
                | Records contributors \<Rightarrow> Inr (formattedContributors contributors)))"

text \<open>The body of the \<open>try\<close> block, lines 10 to 50.\<close>

definition try_block :: "env \<Rightarrow> world \<Rightarrow> (js_error + unit) \<times> world" where
  "try_block e w =
     (let w1 = emit LogFetching w in
      case fetch_and_format e of
        Inl err \<Rightarrow> (Inl err, w1)
      | Inr formatted \<Rightarrow>
          (case writeFileSync e formatted w1 of
             (Inl err, w2) \<Rightarrow> (Inl err, w2)
           | (Inr u, w2) \<Rightarrow>
               (Inr (), emit LogWrittenTo (emit (LogSuccessfullyFetched (length formatted)) w2))))"

datatype promise_result =
    Fulfilled
  | Rejected js_error

text \<open>
  The whole \<open>async function fetchContributors\<close>: the \<open>catch\<close> block of lines 51 to 55
  takes every error of the \<open>try\<close> block, prints two lines and returns normally.
\<close>

definition fetchContributors :: "env \<Rightarrow> world \<Rightarrow> promise_result \<times> world" where
  "fetchContributors e w =
     (case try_block e w of
        (Inr u, w') \<Rightarrow> (Fulfilled, w')
      | (Inl err, w') \<Rightarrow>
          (Fulfilled, emit LogKeepingExisting (emit (ErrorFetchingContributors err) w')))"

text \<open>
  Line 58, the top level of the script: the promise is not awaited and has no handler.
  A fulfilled promise lets the process end with code 0; a rejected one would be an
  unhandled rejection, which ends the process with code 1.
\<close>

definition script :: "env \<Rightarrow> world \<Rightarrow> nat \<times> world" where
  "script e w =
     (case fetchContributors e w of
        (Fulfilled, w') \<Rightarrow> (0, w')
      | (Rejected err, w') \<Rightarrow> (1, w'))"

section \<open>The footer component (src/components/Footer.tsx)\<close>

text \<open>
  What the component renders is a sequence of React children: text, and MUI \<open>Link\<close>
  elements with their props. The label of a link is its text content (the children
  \<open>@\<close> and the username of a contributor's link are one string here). The \<open>Box\<close> and
  \<open>Typography\<close> wrappers carry layout only and are left out.
\<close>

record link_props =
  href :: string
  target :: string
  rel :: string
  underline :: "string option"
  color :: "string option"

datatype node =
    Text string
  | Link link_props string

text \<open>
  Strings are byte strings in UTF-8: the dotless i (U+0131) of the Turkish phrase is
  the two bytes C4 B1.
\<close>

definition dotless_i :: string where
  "dotless_i = [CHR 0xC4, CHR 0xB1]"

definition hayratidir :: string where
  "hayratidir = ''hayrat'' @ dotless_i @ ''d'' @ dotless_i @ ''r''"

text \<open>Line 22, the string returned for an empty list.\<close>

definition fallback_phrase :: string where
  "fallback_phrase = ''@keepdying '' @ hayratidir"

text \<open>Line 41, the JSX text after the mapped list.\<close>

definition suffix_text :: string where
  "suffix_text = '' '' @ hayratidir @ ''.''"

text \<open>Lines 29 to 36.\<close>

definition contributor_link :: "contributor \<Rightarrow> node" where
  "contributor_link c =
     Link \<lparr>href = profileUrl c, target = ''_blank'', rel = ''noopener'',
           underline = Some ''hover'', color = None\<rparr>
          (''@'' @ username c)"

text \<open>
  Lines 37 to 39, for the entry at \<open>index\<close> of a list of length \<open>n\<close>. The JavaScript
  numbers are integers here, so \<open>n - 1\<close> and \<open>n - 2\<close> are not truncated. Where the
  condition is false the expression is \<open>false\<close>, which React renders as nothing.
\<close>

definition separator :: "nat \<Rightarrow> nat \<Rightarrow> node list" where
  "separator index n =
     (if int index < int n - 1
      then [Text (if int index = int n - 2 then '' ve '' else '', '')]
      else [])"

text \<open>Lines 20 to 44, as a function of the component's state \<open>contributors\<close>.\<close>

definition formatContributors :: "contributor list \<Rightarrow> node list" where
  "formatContributors contributors =
     (if length contributors = 0 then [Text fallback_phrase]
      else concat (map (\<lambda>(index, c). contributor_link c # separator index (length contributors))
                       (enumerate 0 contributors))
           @ [Text suffix_text])"

text \<open>Lines 63 to 70.\<close>

definition repository_link :: node where
  "repository_link =
     Link \<lparr>href = ''https://github.com/keepdying/itu-web-archive'', target = ''_blank'',
           rel = ''noopener noreferrer'', underline = None, color = Some ''inherit''\<rparr>
          ''GitHub Repository''"

text \<open>Lines 61 to 71, the children of the \<open>Typography\<close> element.\<close>

definition Footer :: "contributor list \<Rightarrow> node list" where
  "Footer contributors = formatContributors contributors @ [Text '' -'', Text '' '', repository_link]"

fun node_text :: "node \<Rightarrow> string" where
  "node_text (Text s) = s"
| "node_text (Link p s) = s"

definition text_content :: "node list \<Rightarrow> string" where
  "text_content ns = concat (map node_text ns)"

subsection \<open>Loading the artifact\<close>

text \<open>
  What the request of line 15 can do: \<open>fetch\<close> rejects (no connection), or it resolves
  to a response with a status; then \<open>res.json()\<close> rejects (the body is not JSON) or
  resolves to the parsed body. The component declares its state as \<open>Contributor[]\<close>
  and checks nothing, so a body that parses is a contributor list here.
\<close>

datatype artifact_body =
    NotJson
  | Json "contributor list"

datatype request_result =
    RequestRejects string
  | RequestResolves nat artifact_body

text \<open>Line 12, the initial state.\<close>

definition initial_contributors :: "contributor list" where
  "initial_contributors = []"

text \<open>
  Lines 14 to 18, run once after the first render: the promise chain and the state it
  leaves. The chain has no rejection handler and never reads \<open>res.ok\<close> or
  \<open>res.status\<close>.
\<close>

definition useEffect :: "request_result \<Rightarrow> contributor list \<Rightarrow> promise_result \<times> contributor list" where
  "useEffect r contributors =
     (case r of
        RequestRejects msg \<Rightarrow> (Rejected (NetworkError msg), contributors)
      | RequestResolves st b \<Rightarrow>
          (case b of
             NotJson \<Rightarrow> (Rejected JsonSyntaxError, contributors)
           | Json parsed \<Rightarrow> (Fulfilled, parsed)))"

text \<open>What the page shows once the request has settled.\<close>

definition settled_Footer :: "request_result \<Rightarrow> node list" where
  "settled_Footer r = Footer (snd (useEffect r initial_contributors))"

section \<open>Properties of the fetch script\<close>

subsection \<open>The formatted list\<close>

lemma ownerExists_iff:
  "list_ex (\<lambda>c. username c = REPO_OWNER) (map toContributor (filter isUser cs))
     \<longleftrightarrow> REPO_OWNER \<in> set (map login (filter isUser cs))"
  by (force simp: list_ex_iff toContributor_def)

lemma formattedContributors_eq:
  "formattedContributors cs =
     (if REPO_OWNER \<in> set (map login (filter isUser cs)) then [] else [owner_record])
     @ map toContributor (filter isUser cs)"
  unfolding formattedContributors_def Let_def ownerExists_iff by simp

lemma usernames_formatted:
  "map username (formattedContributors cs) =
     (if REPO_OWNER \<in> set (map login (filter isUser cs)) then [] else [REPO_OWNER])
     @ map login (filter isUser cs)"
  unfolding formattedContributors_eq by (simp add: toContributor_def owner_record_def comp_def)

lemma owner_record_literal:
  "owner_record = \<lparr>username = ''keepdying'', profileUrl = ''https://github.com/keepdying''\<rparr>"
  by (simp add: owner_record_def REPO_OWNER_def)

text \<open>
  Claim C1. When no record of type \<open>User\<close> in the provider's response has the login
  \<open>keepdying\<close>, the formatted list is the owner's record, with the profile URL
  \<open>https://github.com/keepdying\<close>, followed by the projected user records; the username
  \<open>keepdying\<close> occurs in it exactly once.
\<close>

theorem owner_prepended_when_absent:
  assumes "\<forall>c\<in>set contributors. type c = ''User'' \<longrightarrow> login c \<noteq> ''keepdying''"
  shows "formattedContributors contributors =
           \<lparr>username = ''keepdying'', profileUrl = ''https://github.com/keepdying''\<rparr>
             # map toContributor (filter isUser contributors)
         \<and> count_list (map username (formattedContributors contributors)) ''keepdying'' = 1"
proof -
  let ?users = "filter isUser contributors"
  from assms have absent: "REPO_OWNER \<notin> set (map login ?users)"
    by (auto simp: isUser_def REPO_OWNER_def)
  then have zero: "count_list (map login ?users) REPO_OWNER = 0"
    by (simp only: count_list_0_iff not_False_eq_True)
  have out: "formattedContributors contributors = owner_record # map toContributor ?users"
    using absent by (simp add: formattedContributors_eq)
  have "map username (formattedContributors contributors) = REPO_OWNER # map login ?users"
    using absent by (simp add: usernames_formatted)
  then have "count_list (map username (formattedContributors contributors)) REPO_OWNER = 1"
    using zero by simp
  with out show ?thesis
    by (simp add: owner_record_literal REPO_OWNER_def)
qed

theorem owner_prepended_when_absent_witness:
  "formattedContributors
     [\<lparr>type = ''User'', login = ''alice'', html_url = ''https://github.com/alice''\<rparr>,
      \<lparr>type = ''Bot'', login = ''keepdying'', html_url = ''https://github.com/apps/keepdying''\<rparr>] =
     [\<lparr>username = ''keepdying'', profileUrl = ''https://github.com/keepdying''\<rparr>,
      \<lparr>username = ''alice'', profileUrl = ''https://github.com/alice''\<rparr>]
   \<and> count_list (map username (formattedContributors
     [\<lparr>type = ''User'', login = ''alice'', html_url = ''https://github.com/alice''\<rparr>,
      \<lparr>type = ''Bot'', login = ''keepdying'', html_url = ''https://github.com/apps/keepdying''\<rparr>]))
       ''keepdying'' = 1"
  using owner_prepended_when_absent
    [of "[\<lparr>type = ''User'', login = ''alice'', html_url = ''https://github.com/alice''\<rparr>,
          \<lparr>type = ''Bot'', login = ''keepdying'', html_url = ''https://github.com/apps/keepdying''\<rparr>]"]
  by (simp add: isUser_def toContributor_def)

text \<open>
  Claim C4, as the code has it. The script has no step that removes duplicates: a login
  that the provider reports twice among the \<open>User\<close> records is written twice. The
  usernames of the formatted list are pairwise distinct whenever the logins of the
  \<open>User\<close> records of the response are.
\<close>

theorem duplicate_logins_kept:
  "\<not> distinct (map username (formattedContributors
      [\<lparr>type = ''User'', login = ''alice'', html_url = ''https://github.com/alice''\<rparr>,
       \<lparr>type = ''User'', login = ''alice'', html_url = ''https://github.com/alice''\<rparr>]))"
  by (simp add: formattedContributors_def isUser_def toContributor_def REPO_OWNER_def)

theorem usernames_distinct_if_logins_distinct:
  assumes "distinct (map login (filter isUser contributors))"
  shows "distinct (map username (formattedContributors contributors))"
  using assms by (simp add: usernames_formatted)

theorem usernames_distinct_if_logins_distinct_witness:
  "distinct (map username (formattedContributors
      [\<lparr>type = ''User'', login = ''alice'', html_url = ''https://github.com/alice''\<rparr>,
       \<lparr>type = ''Bot'', login = ''alice'', html_url = ''https://github.com/apps/alice''\<rparr>,
       \<lparr>type = ''User'', login = ''bob'', html_url = ''https://github.com/bob''\<rparr>]))"
  using usernames_distinct_if_logins_distinct
    [of "[\<lparr>type = ''User'', login = ''alice'', html_url = ''https://github.com/alice''\<rparr>,
          \<lparr>type = ''Bot'', login = ''alice'', html_url = ''https://github.com/apps/alice''\<rparr>,
          \<lparr>type = ''User'', login = ''bob'', html_url = ''https://github.com/bob''\<rparr>]"]
  by (simp add: isUser_def)

text \<open>
  Claim C8. When every record of the response has the type \<open>Bot\<close>, the formatted list
  is the owner's record alone.
\<close>

theorem only_bots_gives_owner_alone:
  assumes "\<forall>c\<in>set contributors. type c = ''Bot''"
  shows "formattedContributors contributors =
           [\<lparr>username = ''keepdying'', profileUrl = ''https://github.com/keepdying''\<rparr>]"
proof -
  from assms have "filter isUser contributors = []"
    by (auto simp: isUser_def filter_empty_conv)
  then show ?thesis
    by (simp add: formattedContributors_eq owner_record_literal)
qed

theorem only_bots_gives_owner_alone_witness:
  "formattedContributors
     [\<lparr>type = ''Bot'', login = ''dependabot[bot]'', html_url = ''https://github.com/apps/dependabot''\<rparr>,
      \<lparr>type = ''Bot'', login = ''keepdying'', html_url = ''https://github.com/apps/keepdying''\<rparr>] =
     [\<lparr>username = ''keepdying'', profileUrl = ''https://github.com/keepdying''\<rparr>]"
  using only_bots_gives_owner_alone
    [of "[\<lparr>type = ''Bot'', login = ''dependabot[bot]'', html_url = ''https://github.com/apps/dependabot''\<rparr>,
          \<lparr>type = ''Bot'', login = ''keepdying'', html_url = ''https://github.com/apps/keepdying''\<rparr>]"]
  by simp

lemma toContributor_fields:
  "toContributor = (\<lambda>c. \<lparr>username = login c, profileUrl = html_url c\<rparr>)"
  by (rule ext) (simp add: toContributor_def)

lemma isUser_literal: "isUser = (\<lambda>c. type c = ''User'')"
  by (rule ext) (simp add: isUser_def)

text \<open>
  Claim C10. The formatted list is made of the records of the response whose type is
  \<open>User\<close>, in the order of the response, each one projected to its login (as
  \<open>username\<close>) and its \<open>html_url\<close> (as \<open>profileUrl\<close>) and not changed otherwise. In
  front of them stands nothing when one of them has the login \<open>keepdying\<close>, and the
  owner's record alone when none has. The formatted list without that possible first
  entry is a subsequence of the projected response: nothing is reordered or added.
\<close>

theorem formattedContributors_keeps_order:
  "formattedContributors contributors =
     (if \<exists>c \<in> set contributors. type c = ''User'' \<and> login c = ''keepdying'' then []
      else [\<lparr>username = ''keepdying'', profileUrl = ''https://github.com/keepdying''\<rparr>])
     @ map (\<lambda>c. \<lparr>username = login c, profileUrl = html_url c\<rparr>)
           (filter (\<lambda>c. type c = ''User'') contributors)
   \<and> subseq
        (drop (if \<exists>c \<in> set contributors. type c = ''User'' \<and> login c = ''keepdying'' then 0 else 1)
              (formattedContributors contributors))
        (map (\<lambda>c. \<lparr>username = login c, profileUrl = html_url c\<rparr>) contributors)"
proof -
  let ?p = "\<lambda>c. \<lparr>username = login c, profileUrl = html_url c\<rparr>"
  let ?u = "\<lambda>c. type c = ''User''"
  let ?own = "\<exists>c \<in> set contributors. type c = ''User'' \<and> login c = ''keepdying''"
  have own: "REPO_OWNER \<in> set (map login (filter isUser contributors)) \<longleftrightarrow> ?own"
    by (force simp: isUser_def REPO_OWNER_def)
  have eq: "formattedContributors contributors =
      (if ?own then [] else [\<lparr>username = ''keepdying'', profileUrl = ''https://github.com/keepdying''\<rparr>])
      @ map ?p (filter ?u contributors)"
    unfolding formattedContributors_eq own owner_record_literal
    by (simp only: toContributor_fields isUser_literal)
  have "subseq (filter ?u contributors) contributors" by simp
  then have sub: "subseq (map ?p (filter ?u contributors)) (map ?p contributors)"
    by (rule subseq_map)
  have "drop (if ?own then 0 else 1) (formattedContributors contributors) = map ?p (filter ?u contributors)"
    unfolding eq by simp
  with sub eq show ?thesis by (simp only: simp_thms)
qed

theorem formattedContributors_keeps_order_witness:
  "formattedContributors
     [\<lparr>type = ''User'', login = ''bob'', html_url = ''https://github.com/bob''\<rparr>,
      \<lparr>type = ''Bot'', login = ''dependabot[bot]'', html_url = ''https://github.com/apps/dependabot''\<rparr>,
      \<lparr>type = ''User'', login = ''alice'', html_url = ''https://github.com/alice''\<rparr>] =
     [\<lparr>username = ''keepdying'', profileUrl = ''https://github.com/keepdying''\<rparr>,
      \<lparr>username = ''bob'', profileUrl = ''https://github.com/bob''\<rparr>,
      \<lparr>username = ''alice'', profileUrl = ''https://github.com/alice''\<rparr>]
   \<and> formattedContributors
     [\<lparr>type = ''User'', login = ''bob'', html_url = ''https://github.com/bob''\<rparr>,
      \<lparr>type = ''User'', login = ''keepdying'', html_url = ''https://github.com/keepdying''\<rparr>] =
     [\<lparr>username = ''bob'', profileUrl = ''https://github.com/bob''\<rparr>,
      \<lparr>username = ''keepdying'', profileUrl = ''https://github.com/keepdying''\<rparr>]"
  using formattedContributors_keeps_order
      [of "[\<lparr>type = ''User'', login = ''bob'', html_url = ''https://github.com/bob''\<rparr>,
            \<lparr>type = ''Bot'', login = ''dependabot[bot]'', html_url = ''https://github.com/apps/dependabot''\<rparr>,
            \<lparr>type = ''User'', login = ''alice'', html_url = ''https://github.com/alice''\<rparr>]"]
    formattedContributors_keeps_order
      [of "[\<lparr>type = ''User'', login = ''bob'', html_url = ''https://github.com/bob''\<rparr>,
            \<lparr>type = ''User'', login = ''keepdying'', html_url = ''https://github.com/keepdying''\<rparr>]"]
  by simp

subsection \<open>Runs of the script\<close>

lemma fetch_and_format_fails_iff:
  "(\<exists>err. fetch_and_format e = Inl err) \<longleftrightarrow>
     (\<exists>msg. fetch_outcome e = FetchRejects msg)
     \<or> (\<exists>r. fetch_outcome e = FetchResolves r \<and> (\<not> ok r \<or> body r = Unparsable \<or> body r = NotAnArray))"
  by (auto simp: fetch_and_format_def split: fetch_result.splits response_body.splits)

lemma fetch_and_format_succeeds_iff:
  "fetch_and_format e = Inr formatted \<longleftrightarrow>
     (\<exists>r cs. fetch_outcome e = FetchResolves r \<and> ok r \<and> body r = Records cs
        \<and> formatted = formattedContributors cs)"
  by (auto simp: fetch_and_format_def split: fetch_result.splits response_body.splits)

lemma fetchContributors_on_failure:
  assumes "fetch_and_format e = Inl err"
  shows "fetchContributors e w =
     (Fulfilled, w\<lparr>trace := trace w @ [LogFetching, ErrorFetchingContributors err, LogKeepingExisting]\<rparr>)"
  using assms by (simp add: fetchContributors_def try_block_def emit_def)

lemma fetchContributors_on_success:
  assumes "fetch_and_format e = Inr formatted" and "write_outcome e = WriteSucceeds"
  shows "fetchContributors e w =
     (Fulfilled,
      w\<lparr>artifact := Holds formatted,
        trace := trace w @ [LogFetching, WriteFileSync formatted,
                            LogSuccessfullyFetched (length formatted), LogWrittenTo]\<rparr>)"
  using assms by (simp add: fetchContributors_def try_block_def writeFileSync_def emit_def)

text \<open>
  Claim C5. When the request is rejected, or the response has a status outside 200 to
  299, or its body is not JSON or not an array, the run is caught by the \<open>catch\<close>
  block: the artifact is what it was before the run, and the run did three things only,
  none of them a write: the first console line, the error line and the line that says
  the existing file is kept.
\<close>

theorem failed_fetch_writes_nothing:
  assumes "(\<exists>msg. fetch_outcome e = FetchRejects msg)
     \<or> (\<exists>r. fetch_outcome e = FetchResolves r \<and> (\<not> ok r \<or> body r = Unparsable \<or> body r = NotAnArray))"
  shows "artifact (snd (fetchContributors e w)) = artifact w
     \<and> (\<exists>err. trace (snd (fetchContributors e w)) =
           trace w @ [LogFetching, ErrorFetchingContributors err, LogKeepingExisting])
     \<and> fst (fetchContributors e w) = Fulfilled"
proof -
  from assms obtain err where "fetch_and_format e = Inl err"
    using fetch_and_format_fails_iff by blast
  then show ?thesis
    by (simp add: fetchContributors_on_failure)
qed

theorem failed_fetch_writes_nothing_witness:
  "artifact (snd (fetchContributors
      \<lparr>fetch_outcome = FetchRejects ''getaddrinfo ENOTFOUND api.github.com'', write_outcome = WriteSucceeds\<rparr>
      \<lparr>artifact = Holds [\<lparr>username = ''keepdying'', profileUrl = ''https://github.com/keepdying''\<rparr>], trace = []\<rparr>))
    = Holds [\<lparr>username = ''keepdying'', profileUrl = ''https://github.com/keepdying''\<rparr>]
   \<and> artifact (snd (fetchContributors
      \<lparr>fetch_outcome = FetchResolves \<lparr>status = 403, statusText = ''rate limit exceeded'', body = NotAnArray\<rparr>,
        write_outcome = WriteSucceeds\<rparr>
      \<lparr>artifact = Holds [\<lparr>username = ''keepdying'', profileUrl = ''https://github.com/keepdying''\<rparr>], trace = []\<rparr>))
    = Holds [\<lparr>username = ''keepdying'', profileUrl = ''https://github.com/keepdying''\<rparr>]
   \<and> artifact (snd (fetchContributors
      \<lparr>fetch_outcome = FetchResolves \<lparr>status = 200, statusText = ''OK'', body = Unparsable\<rparr>,
        write_outcome = WriteSucceeds\<rparr>
      \<lparr>artifact = Missing, trace = []\<rparr>))
    = Missing"
  using failed_fetch_writes_nothing
      [of "\<lparr>fetch_outcome = FetchRejects ''getaddrinfo ENOTFOUND api.github.com'', write_outcome = WriteSucceeds\<rparr>"
          "\<lparr>artifact = Holds [\<lparr>username = ''keepdying'', profileUrl = ''https://github.com/keepdying''\<rparr>], trace = []\<rparr>"]
    failed_fetch_writes_nothing
      [of "\<lparr>fetch_outcome = FetchResolves \<lparr>status = 403, statusText = ''rate limit exceeded'', body = NotAnArray\<rparr>,
            write_outcome = WriteSucceeds\<rparr>"
          "\<lparr>artifact = Holds [\<lparr>username = ''keepdying'', profileUrl = ''https://github.com/keepdying''\<rparr>], trace = []\<rparr>"]
    failed_fetch_writes_nothing
      [of "\<lparr>fetch_outcome = FetchResolves \<lparr>status = 200, statusText = ''OK'', body = Unparsable\<rparr>,
            write_outcome = WriteSucceeds\<rparr>"
          "\<lparr>artifact = Missing, trace = []\<rparr>"]
  by (simp add: ok_def)

text \<open>
  Claim C3, as the code has it. The call of \<open>fs.writeFileSync\<close> stands inside the
  \<open>try\<close> block, so an error it throws is taken by the same \<open>catch\<close> block as every
  other error: it is printed, the function returns normally and the process ends with
  code 0. Below, the write throws \<open>EACCES\<close> and the exit code is 0.
\<close>

theorem write_failure_exits_zero:
  "script
     \<lparr>fetch_outcome = FetchResolves \<lparr>status = 200, statusText = ''OK'', body = Records []\<rparr>,
      write_outcome = WriteThrows ''EACCES: permission denied'' Missing\<rparr>
     \<lparr>artifact = Missing, trace = []\<rparr>
   = (0, \<lparr>artifact = Missing,
          trace = [LogFetching,
                   WriteFileSync [\<lparr>username = ''keepdying'', profileUrl = ''https://github.com/keepdying''\<rparr>],
                   ErrorFetchingContributors (FilesystemError ''EACCES: permission denied''),
                   LogKeepingExisting]\<rparr>)"
  by (simp add: script_def fetchContributors_def try_block_def fetch_and_format_def ok_def
      writeFileSync_def emit_def formattedContributors_def owner_record_def REPO_OWNER_def)

theorem write_failure_is_caught:
  assumes "fetch_and_format e = Inr formatted" and "write_outcome e = WriteThrows msg left"
  shows "fetchContributors e w =
     (Fulfilled,
      w\<lparr>artifact := left,
        trace := trace w @ [LogFetching, WriteFileSync formatted,
                            ErrorFetchingContributors (FilesystemError msg), LogKeepingExisting]\<rparr>)
     \<and> fst (script e w) = 0"
  using assms
  by (simp add: script_def fetchContributors_def try_block_def writeFileSync_def emit_def)

theorem write_failure_is_caught_witness:
  "fst (script
     \<lparr>fetch_outcome = FetchResolves \<lparr>status = 200, statusText = ''OK'',
         body = Records [\<lparr>type = ''User'', login = ''keepdying'', html_url = ''https://github.com/keepdying''\<rparr>]\<rparr>,
      write_outcome = WriteThrows ''ENOSPC: no space left on device'' Corrupt\<rparr>
     \<lparr>artifact = Holds [], trace = []\<rparr>) = 0"
  using write_failure_is_caught [of
     "\<lparr>fetch_outcome = FetchResolves \<lparr>status = 200, statusText = ''OK'',
         body = Records [\<lparr>type = ''User'', login = ''keepdying'', html_url = ''https://github.com/keepdying''\<rparr>]\<rparr>,
      write_outcome = WriteThrows ''ENOSPC: no space left on device'' Corrupt\<rparr>"
     "formattedContributors [\<lparr>type = ''User'', login = ''keepdying'', html_url = ''https://github.com/keepdying''\<rparr>]"
     "''ENOSPC: no space left on device''" Corrupt
     "\<lparr>artifact = Holds [], trace = []\<rparr>"]
  by (simp add: fetch_and_format_def ok_def)

section \<open>Properties of the footer component\<close>

lemma formatContributors_Cons:
  "formatContributors (c # cs) =
     contributor_link c
       # separator 0 (Suc (length cs))
       @ concat (map (\<lambda>(index, d). contributor_link d # separator index (Suc (length cs)))
                     (enumerate (Suc 0) cs))
       @ [Text suffix_text]"
  by (simp add: formatContributors_def)

lemma text_content_append: "text_content (xs @ ys) = text_content xs @ text_content ys"
  by (simp add: text_content_def)

lemma last_text_formatContributors:
  "contributors \<noteq> [] \<Longrightarrow> last (text_content (formatContributors contributors)) = CHR ''.''"
  by (simp add: formatContributors_def text_content_append)
     (simp add: text_content_def suffix_text_def)

lemma last_fallback_phrase: "last fallback_phrase = CHR ''r''"
  by (simp add: fallback_phrase_def hayratidir_def)

lemma formattedContributors_not_Nil: "formattedContributors cs \<noteq> []"
  by (auto simp: formattedContributors_eq filter_empty_conv)

lemma useEffect_rejects_iff:
  "(\<exists>err. fst (useEffect r contributors) = Rejected err) \<longleftrightarrow>
     (\<exists>msg. r = RequestRejects msg) \<or> (\<exists>st. r = RequestResolves st NotJson)"
  by (auto simp: useEffect_def split: request_result.splits artifact_body.splits)

text \<open>
  Claim C6. For the three contributors \<open>a\<close>, \<open>b\<close>, \<open>c\<close> the footer is: the link \<open>@a\<close>,
  a comma and a space, the link \<open>@b\<close>, the conjunction \<open>ve\<close> between spaces, the link
  \<open>@c\<close>, the suffix, the separator (a space, a dash, a space) and the repository link.
  Read as text: \<open>@a, @b ve @c\<close>, the suffix, \<open> - GitHub Repository\<close>.
\<close>

theorem three_contributors_rendering:
  "Footer [\<lparr>username = ''a'', profileUrl = pa\<rparr>,
           \<lparr>username = ''b'', profileUrl = pb\<rparr>,
           \<lparr>username = ''c'', profileUrl = pc\<rparr>] =
     [Link \<lparr>href = pa, target = ''_blank'', rel = ''noopener'', underline = Some ''hover'', color = None\<rparr> ''@a'',
      Text '', '',
      Link \<lparr>href = pb, target = ''_blank'', rel = ''noopener'', underline = Some ''hover'', color = None\<rparr> ''@b'',
      Text '' ve '',
      Link \<lparr>href = pc, target = ''_blank'', rel = ''noopener'', underline = Some ''hover'', color = None\<rparr> ''@c'',
      Text suffix_text,
      Text '' -'', Text '' '', repository_link]
   \<and> text_content (Footer [\<lparr>username = ''a'', profileUrl = pa\<rparr>,
                            \<lparr>username = ''b'', profileUrl = pb\<rparr>,
                            \<lparr>username = ''c'', profileUrl = pc\<rparr>]) =
       ''@a, @b ve @c'' @ suffix_text @ '' - '' @ ''GitHub Repository''"
  by (simp add: Footer_def formatContributors_def contributor_link_def separator_def
      text_content_def repository_link_def)

text \<open>
  Claim C7. For the empty list the footer is the fallback phrase as plain text, with no
  link for a contributor, then the separator and the repository link.
\<close>

theorem empty_list_rendering:
  "Footer [] = [Text fallback_phrase, Text '' -'', Text '' '', repository_link]
   \<and> text_content (Footer []) = fallback_phrase @ '' - '' @ ''GitHub Repository''"
  by (simp add: Footer_def formatContributors_def text_content_def repository_link_def)

text \<open>
  Claim C9. Whatever the provider's records are, the list the script serialises has at
  least one entry, and the component renders it through the second branch: the nodes
  are not the fallback text, the text they show is not the fallback phrase, and the
  footer differs from the footer of the empty list.
\<close>

theorem fetcher_output_never_renders_fallback:
  "1 \<le> length (formattedContributors contributors)
   \<and> formatContributors (formattedContributors contributors) \<noteq> [Text fallback_phrase]
   \<and> text_content (formatContributors (formattedContributors contributors)) \<noteq> fallback_phrase
   \<and> Footer (formattedContributors contributors) \<noteq> Footer []"
proof -
  let ?a = "formattedContributors contributors"
  have ne: "?a \<noteq> []" by (rule formattedContributors_not_Nil)
  then obtain c cs where a: "?a = c # cs" by (cases ?a) auto
  have len: "1 \<le> length ?a" using a by simp
  have "hd (formatContributors ?a) = contributor_link c"
    unfolding a formatContributors_Cons by simp
  then have nodes: "formatContributors ?a \<noteq> [Text fallback_phrase]"
    by (auto simp: contributor_link_def)
  have "last (text_content (formatContributors ?a)) \<noteq> last fallback_phrase"
    using ne by (simp add: last_text_formatContributors last_fallback_phrase)
  then have differ: "text_content (formatContributors ?a) \<noteq> fallback_phrase"
    by auto
  have "Footer ?a \<noteq> Footer []"
    using nodes by (simp add: Footer_def formatContributors_def)
  with len nodes differ show ?thesis by simp
qed

text \<open>
  Claim C2, as the code has it. The component never reads the status of the response:
  what decides is whether the promise chain rejects, that is, whether \<open>fetch\<close> rejects
  or the body is not JSON. Then \<open>setContributors\<close> is not called, the state stays the
  initial empty list and the footer is the footer of the empty list; this holds for
  every status, 404 included. A response with status 404 whose body is the JSON of a
  contributor list is loaded like any other, as the first theorem shows.
\<close>

theorem not_found_with_json_body_is_loaded:
  "settled_Footer (RequestResolves 404 (Json [\<lparr>username = ''a'', profileUrl = ''https://github.com/a''\<rparr>]))
     \<noteq> Footer []"
  by (simp add: settled_Footer_def useEffect_def Footer_def formatContributors_def contributor_link_def)

theorem rejected_request_renders_fallback:
  assumes "(\<exists>msg. r = RequestRejects msg) \<or> (\<exists>st. r = RequestResolves st NotJson)"
  shows "snd (useEffect r initial_contributors) = []
     \<and> settled_Footer r = Footer []
     \<and> settled_Footer r = [Text fallback_phrase, Text '' -'', Text '' '', repository_link]"
  using assms
  by (auto simp: settled_Footer_def useEffect_def initial_contributors_def Footer_def
      formatContributors_def)

theorem rejected_request_renders_fallback_witness:
  "settled_Footer (RequestResolves 404 NotJson) = Footer []
   \<and> settled_Footer (RequestRejects ''Failed to fetch'') = Footer []
   \<and> settled_Footer (RequestResolves 200 NotJson) = Footer []"
  using rejected_request_renders_fallback [of "RequestResolves 404 NotJson"]
    rejected_request_renders_fallback [of "RequestRejects ''Failed to fetch''"]
    rejected_request_renders_fallback [of "RequestResolves 200 NotJson"]
  by simp

end
